theory Spec2Isabelle
  imports Main "HOL-Library.Product_Lexorder"
begin

section \<open>Values shared by the SMTP library and the SMTP routes\<close>

text \<open>
  A JavaScript string is represented by its UTF-8 bytes (a HOL \<open>string\<close>), a Node
  \<open>Buffer\<close> by its bytes. A thrown value is either an \<open>Error\<close> object carrying its
  message or some other value; the two \<open>catch\<close> blocks of \<open>api/lib/smtp.ts\<close> distinguish
  exactly these two cases (\<open>error instanceof Error ? error.message : ...\<close>).
  A computation that may throw has type \<open>js_thrown + 'a\<close>, \<open>Inl\<close> being the throw.
\<close>

type_synonym buffer = "char list"

datatype js_thrown = JsError string | JsOther

section \<open>Credential vault: \<open>encryptPassword\<close> and \<open>decryptPassword\<close> (api/lib/smtp.ts)\<close>

subsection \<open>Hexadecimal text and \<open>String.prototype.split\<close>\<close>


definition hexVal :: "char \<Rightarrow> nat option" where
  "hexVal c =
     (let n = (of_char c :: nat) in
      if 48 \<le> n \<and> n \<le> 57 then Some (n - 48)
      else if 97 \<le> n \<and> n \<le> 102 then Some (n - 87)
      else if 65 \<le> n \<and> n \<le> 70 then Some (n - 55)
      else None)"


fun fromHex :: "string \<Rightarrow> buffer" where
  "fromHex (a # b # rest) =
     (case hexVal a of
        None \<Rightarrow> []
      | Some h \<Rightarrow> (case hexVal b of
                    None \<Rightarrow> []
                  | Some l \<Rightarrow> char_of (16 * h + l) # fromHex rest))"
| "fromHex [a] = []"
| "fromHex [] = []"

text \<open>\<open>s.split(sep)\<close> for a one-character separator: never empty, \<open>''''\<close> gives \<open>['''']\<close>.\<close>

fun split :: "char \<Rightarrow> string \<Rightarrow> string list" where
  "split sep [] = [[]]"
| "split sep (c # cs) =
     (if c = sep then [] # split sep cs
      else (let ps = split sep cs in (c # hd ps) # tl ps))"

subsection \<open>The primitives of Node's \<open>crypto\<close> module\<close>

text \<open>
  The block cipher, the key derivation and the random source belong to Node, not to this
  repository; they are parameters of the model. \<open>scryptSync pw salt n\<close> is the derived key,
  \<open>aesCbcEncrypt key iv plain\<close> the padded AES-256-CBC ciphertext, \<open>aesCbcDecrypt key iv c\<close>
  the plaintext or the error that \<open>decipher.final\<close> throws (bad padding, wrong length), and
  \<open>evpBytesToKey pw\<close> the key and IV that the deprecated \<open>crypto.createDecipher\<close> derives
  from a passphrase. The fresh IV of \<open>crypto.randomBytes(16)\<close> is an argument of
  \<open>encryptPassword\<close>.
\<close>

record node_crypto =
  scryptSync :: "string \<Rightarrow> string \<Rightarrow> nat \<Rightarrow> buffer"
  aesCbcEncrypt :: "buffer \<Rightarrow> buffer \<Rightarrow> buffer \<Rightarrow> buffer"
  aesCbcDecrypt :: "buffer \<Rightarrow> buffer \<Rightarrow> buffer \<Rightarrow> js_thrown + buffer"
  evpBytesToKey :: "string \<Rightarrow> buffer \<times> buffer"


text \<open>
  \<open>crypto.createCipheriv('aes-256-cbc', key, iv)\<close> and \<open>createDecipheriv\<close> throw unless the
  key has 32 bytes and the IV 16. The result of the model is the pair the cipher object
  holds.
\<close>

definition createCipheriv :: "buffer \<Rightarrow> buffer \<Rightarrow> js_thrown + (buffer \<times> buffer)" where
  "createCipheriv key iv =
     (if length key \<noteq> 32 then Inl (JsError ''Invalid key length'')
      else if length iv \<noteq> 16 then Inl (JsError ''Invalid initialization vector'')
      else Inr (key, iv))"

text \<open>
  \<open>decipher.update(text, 'hex', 'utf8') + decipher.final('utf8')\<close>: hexadecimal input of
  odd length is refused, the rest is decoded as \<open>Buffer.from\<close> does and decrypted.
\<close>

definition decipherHex :: "node_crypto \<Rightarrow> buffer \<times> buffer \<Rightarrow> string \<Rightarrow> js_thrown + string" where
  "decipherHex c kiv text =
     (if odd (length text)
      then Inl (JsError ''The argument encoding is invalid for data of odd length. Received hex'')
      else aesCbcDecrypt c (fst kiv) (snd kiv) (fromHex text))"

subsection \<open>The two functions\<close>


definition decryptPassword :: "node_crypto \<Rightarrow> string \<Rightarrow> string \<Rightarrow> js_thrown + string" where
  "decryptPassword c masterKey encryptedPassword =
     (let key = scryptSync c masterKey ''salt'' 32;
          parts = split CHR '':'' encryptedPassword
      in if length parts \<noteq> 2
         then decipherHex c (evpBytesToKey c masterKey) encryptedPassword
         else (let iv = fromHex (parts ! 0);
                   encrypted = parts ! 1
               in case createCipheriv key iv of
                    Inl e \<Rightarrow> Inl e
                  | Inr kiv \<Rightarrow> decipherHex c kiv encrypted))"

text \<open>
  A stand-in for the primitives, used where a statement is exercised on concrete values:
  a 32-byte key of zeros and a ``cipher'' that reverses the bytes.
\<close>

definition demoCrypto :: node_crypto where
  "demoCrypto =
     \<lparr> scryptSync = (\<lambda>pw salt n. replicate n (CHR 0x00)),
       aesCbcEncrypt = (\<lambda>key iv plain. rev plain),
       aesCbcDecrypt = (\<lambda>key iv cipher. Inr (rev cipher)),
       evpBytesToKey = (\<lambda>pw. (replicate 32 (CHR 0x00), replicate 16 (CHR 0x00))) \<rparr>"


section \<open>Stored records and the persistence layer\<close>

text \<open>
  \<open>req.user\<close> and the rows of \<open>prisma.user\<close>: \<open>id\<close>, \<open>email\<close>, \<open>name\<close>, \<open>role\<close>.
\<close>

record user =
  user_id :: string
  user_email :: string
  user_name :: string
  user_role :: string

text \<open>
  A row of \<open>prisma.smtpConfig\<close>. The field \<open>id\<close> is called \<open>config_id\<close> here; timestamps are
  milliseconds. The table is the list of its rows in the order in which an unordered query
  scans them.
\<close>

record smtpConfig =
  config_id :: string
  userId :: string
  name :: string
  host :: string
  port :: int
  secure :: bool
  username :: string
  passwordEncrypted :: string
  fromName :: string
  signature :: string
  isDefault :: bool
  isActive :: bool
  createdAt :: int
  updatedAt :: int





text \<open>
  The Prisma calls the code makes. \<open>findFirst\<close> takes the first row of the scan that
  satisfies \<open>where\<close>; \<open>orderBy\<close> is a stable sort of the scan. \<open>updateMany\<close> changes every
  row that satisfies \<open>where\<close>, \<open>update\<close> the row with the given \<open>id\<close> (each caller has
  found that row before); both stamp \<open>updatedAt\<close>. \<open>create\<close> appends the row, stamped
  with the current time, and throws when its \<open>id\<close> is taken (the primary key).
\<close>

definition findFirst :: "('r \<Rightarrow> bool) \<Rightarrow> 'r list \<Rightarrow> 'r option" where
  "findFirst wh rows = (case filter wh rows of [] \<Rightarrow> None | r # _ \<Rightarrow> Some r)"


definition count :: "('r \<Rightarrow> bool) \<Rightarrow> 'r list \<Rightarrow> nat" where
  "count wh rows = length (filter wh rows)"

definition updateMany ::
  "(smtpConfig \<Rightarrow> bool) \<Rightarrow> (smtpConfig \<Rightarrow> smtpConfig) \<Rightarrow> int \<Rightarrow> smtpConfig list \<Rightarrow> smtpConfig list" where
  "updateMany wh data now rows = map (\<lambda>r. if wh r then (data r)\<lparr>updatedAt := now\<rparr> else r) rows"

definition update ::
  "string \<Rightarrow> (smtpConfig \<Rightarrow> smtpConfig) \<Rightarrow> int \<Rightarrow> smtpConfig list \<Rightarrow> smtpConfig list" where
  "update i data now rows =
     map (\<lambda>r. if config_id r = i then (data r)\<lparr>updatedAt := now\<rparr> else r) rows"


section \<open>The SMTP configuration routes\<close>

text \<open>
  A handler takes the authenticated caller \<open>me\<close> (\<open>req.user\<close>), the time of the request and
  the table, and returns the response with the table as it leaves it. The responses are
  the status codes the handlers send: 200 and 201 with a payload, 400, 404 and 500 with
  the \<open>error\<close> text.
\<close>

datatype 'a response =
    Status200 'a
  | Status201 'a
  | Status400 string
  | Status404 string
  | Status500 string




definition orElse :: "string option \<Rightarrow> string \<Rightarrow> string" where
  "orElse s d = (case s of None \<Rightarrow> d | Some v \<Rightarrow> if v = [] then d else v)"


subsection \<open>\<open>GET /api/smtp/configs\<close> and \<open>GET /api/smtp/configs/:id\<close>\<close>




subsection \<open>\<open>POST /api/smtp/configs\<close>\<close>


subsection \<open>\<open>PUT /api/smtp/configs/:id\<close>\<close>



subsection \<open>\<open>POST /api/smtp/configs/:id/set-default\<close>\<close>

text \<open>The two writes are one \<open>prisma.$transaction\<close>: the table goes from \<open>db\<close> to the result.\<close>

definition setDefault :: "user \<Rightarrow> int \<Rightarrow> string \<Rightarrow> smtpConfig list \<Rightarrow> string response \<times> smtpConfig list" where
  "setDefault me now i db =
     (case findFirst (\<lambda>r. config_id r = i \<and> userId r = user_id me \<and> isActive r) db of
        None \<Rightarrow> (Status404 ''SMTP configuration not found'', db)
      | Some existingConfig \<Rightarrow>
          (Status200 ''Default SMTP configuration updated'',
           update i (\<lambda>r. r\<lparr>isDefault := True\<rparr>) now
             (updateMany (\<lambda>r. userId r = user_id me \<and> isDefault r)
                (\<lambda>r. r\<lparr>isDefault := False\<rparr>) now db)))"

subsection \<open>\<open>DELETE /api/smtp/configs/:id\<close>\<close>

text \<open>
  The handler awaits its writes one after the other, outside any transaction.
  \<open>deleteWrites\<close> gives the response and the table after each write, in order;
  \<open>deleteConfig\<close> is the handler as a whole, leaving the table of the last write.
\<close>

definition deleteWrites :: "user \<Rightarrow> int \<Rightarrow> string \<Rightarrow> smtpConfig list \<Rightarrow> string response \<times> smtpConfig list list" where
  "deleteWrites me now i db =
     (case findFirst (\<lambda>r. config_id r = i \<and> userId r = user_id me) db of
        None \<Rightarrow> (Status404 ''SMTP configuration not found'', [])
      | Some existingConfig \<Rightarrow>
          (let configCount = count (\<lambda>r. userId r = user_id me \<and> isActive r) db
           in if configCount = 1
              then (Status400 ''Cannot delete the only SMTP configuration'', [])
              else
                (let promoted =
                       (if isDefault existingConfig
                        then (case findFirst
                                     (\<lambda>r. userId r = user_id me \<and> isActive r \<and> config_id r \<noteq> i)
                                     (sort_key createdAt db) of
                                None \<Rightarrow> []
                              | Some nextConfig \<Rightarrow>
                                  [update (config_id nextConfig) (\<lambda>r. r\<lparr>isDefault := True\<rparr>) now db])
                        else []);
                     db1 = last (db # promoted)
                 in (Status200 ''SMTP configuration deleted successfully'',
                     promoted @ [update i (\<lambda>r. r\<lparr>isActive := False\<rparr>) now db1]))))"

definition deleteConfig :: "user \<Rightarrow> int \<Rightarrow> string \<Rightarrow> smtpConfig list \<Rightarrow> string response \<times> smtpConfig list" where
  "deleteConfig me now i db =
     (case deleteWrites me now i db of (res, writes) \<Rightarrow> (res, last (db # writes)))"






definition activeConfigs :: "string \<Rightarrow> smtpConfig list \<Rightarrow> smtpConfig list" where
  "activeConfigs u db = filter (\<lambda>r. userId r = u \<and> isActive r) db"

definition activeDefaults :: "string \<Rightarrow> smtpConfig list \<Rightarrow> smtpConfig list" where
  "activeDefaults u db = filter (\<lambda>r. userId r = u \<and> isActive r \<and> isDefault r) db"

section \<open>Resolving the configuration and sending (api/lib/smtp.ts)\<close>

subsection \<open>\<open>parseInt\<close> and the environment\<close>

text \<open>
  \<open>parseInt(s)\<close> without a radix: leading white space and a sign are skipped, \<open>0x\<close> selects
  base 16, and the longest run of digits is read; no digit gives \<open>NaN\<close> (\<open>None\<close>).
\<close>

definition isSpace :: "char \<Rightarrow> bool" where
  "isSpace ch = (ch \<in> set [CHR '' '', CHR 0x09, CHR 0x0A, CHR 0x0B, CHR 0x0C, CHR 0x0D])"

definition digitIn :: "nat \<Rightarrow> char \<Rightarrow> bool" where
  "digitIn base ch = (case hexVal ch of None \<Rightarrow> False | Some d \<Rightarrow> d < base)"

definition parseInt :: "string \<Rightarrow> int option" where
  "parseInt s =
     (let t = dropWhile isSpace s;
          neg = (take 1 t = ''-'');
          u = (if take 1 t = ''-'' \<or> take 1 t = ''+'' then drop 1 t else t);
          hex = (take 2 u = ''0x'' \<or> take 2 u = ''0X'');
          base = (if hex then 16 else 10);
          ds = takeWhile (digitIn base) (if hex then drop 2 u else u);
          v = foldl (\<lambda>a ch. a * base + (case hexVal ch of None \<Rightarrow> 0 | Some d \<Rightarrow> d)) 0 ds
      in if ds = [] then None else Some (if neg then - int v else int v))"

record environment =
  DEFAULT_SMTP_HOST :: "string option"
  DEFAULT_SMTP_PORT :: "string option"
  DEFAULT_SMTP_SECURE :: "string option"
  DEFAULT_SMTP_USER :: "string option"
  DEFAULT_SMTP_PASS :: "string option"

subsection \<open>\<open>getSmtpConfig\<close> and \<open>createTransporter\<close>\<close>

text \<open>
  \<open>getSmtpConfig\<close> returns one of two shapes: the stored row itself (its second
  \<open>findFirst\<close>), or an object \<open>{host, port, secure, auth: {user, pass}}\<close>.
  \<open>createTransporter\<close> reads \<open>host\<close>, \<open>port\<close>, \<open>secure\<close> and \<open>auth\<close> of what it gets; a stored
  row has no \<open>auth\<close>. A \<open>port\<close> of \<open>None\<close> is \<open>NaN\<close>.
\<close>

record auth =
  auth_user :: string
  auth_pass :: string

record transportOptions =
  t_host :: string
  t_port :: "int option"
  t_secure :: bool
  t_auth :: "auth option"

datatype smtpSettings = StoredRow smtpConfig | Settings transportOptions

text \<open>
  \<open>config.password\<close>: the rows carry their secret in \<open>passwordEncrypted\<close> and have no
  property called \<open>password\<close>, so the read gives \<open>undefined\<close> (\<open>None\<close>), on which the first
  method call of \<open>decryptPassword\<close>, \<open>encryptedPassword.split\<close>, throws a \<open>TypeError\<close>.
\<close>

definition passwordProperty :: "smtpConfig \<Rightarrow> string option" where
  "passwordProperty config = None"

definition decryptPasswordOf :: "node_crypto \<Rightarrow> string \<Rightarrow> string option \<Rightarrow> js_thrown + string" where
  "decryptPasswordOf c masterKey v =
     (case v of
        None \<Rightarrow> Inl (JsError ''Cannot read properties of undefined (reading split)'')
      | Some encryptedPassword \<Rightarrow> decryptPassword c masterKey encryptedPassword)"

definition envSettings :: "environment \<Rightarrow> transportOptions" where
  "envSettings env =
     \<lparr> t_host = orElse (DEFAULT_SMTP_HOST env) ''smtp.gmail.com'',
       t_port = parseInt (orElse (DEFAULT_SMTP_PORT env) ''587''),
       t_secure = (DEFAULT_SMTP_SECURE env = Some ''true''),
       t_auth = Some \<lparr> auth_user = orElse (DEFAULT_SMTP_USER env) [],
                       auth_pass = orElse (DEFAULT_SMTP_PASS env) [] \<rparr> \<rparr>"

definition getSmtpConfig ::
  "node_crypto \<Rightarrow> string \<Rightarrow> environment \<Rightarrow> smtpConfig list \<Rightarrow> string \<Rightarrow> js_thrown + smtpSettings" where
  "getSmtpConfig c masterKey env db uid =
     (case findFirst (\<lambda>r. userId r = uid \<and> isActive r \<and> isDefault r) db of
        None \<Rightarrow>
          (case findFirst (\<lambda>r. userId r = uid \<and> isActive r) db of
             Some firstConfig \<Rightarrow> Inr (StoredRow firstConfig)
           | None \<Rightarrow> Inr (Settings (envSettings env)))
      | Some config \<Rightarrow>
          (case decryptPasswordOf c masterKey (passwordProperty config) of
             Inl e \<Rightarrow> Inl e
           | Inr pass \<Rightarrow>
               Inr (Settings \<lparr> t_host = host config, t_port = Some (port config),
                               t_secure = secure config,
                               t_auth = Some \<lparr> auth_user = username config, auth_pass = pass \<rparr> \<rparr>)))"

definition transportOf :: "smtpSettings \<Rightarrow> transportOptions" where
  "transportOf config =
     (case config of
        Settings s \<Rightarrow> \<lparr> t_host = t_host s, t_port = t_port s, t_secure = t_secure s, t_auth = t_auth s \<rparr>
      | StoredRow r \<Rightarrow> \<lparr> t_host = host r, t_port = Some (port r), t_secure = secure r, t_auth = None \<rparr>)"

definition createTransporter ::
  "node_crypto \<Rightarrow> string \<Rightarrow> environment \<Rightarrow> smtpConfig list \<Rightarrow> string \<Rightarrow> js_thrown + transportOptions" where
  "createTransporter c masterKey env db uid =
     (case getSmtpConfig c masterKey env db uid of
        Inl e \<Rightarrow> Inl e
      | Inr config \<Rightarrow> Inr (transportOf config))"

subsection \<open>\<open>sendEmail\<close> and \<open>testSmtpConnection\<close>\<close>

text \<open>
  The relay is reached through nodemailer, a parameter of the model: \<open>sendMail\<close> and
  \<open>verify\<close> of a transporter either throw (authentication rejected, connection refused,
  timeout, recipient rejected, ...) or give their result.
\<close>

record attachment =
  att_filename :: string
  att_path :: string
  att_contentType :: "string option"

record emailData =
  ed_to :: "string list"
  ed_cc :: "string list option"
  ed_bcc :: "string list option"
  ed_subject :: string
  ed_html :: "string option"
  ed_text :: "string option"
  ed_attachments :: "attachment list option"

record mailOptions =
  mail_from :: string
  mail_to :: string
  mail_cc :: "string option"
  mail_bcc :: "string option"
  mail_subject :: string
  mail_html :: "string option"
  mail_text :: "string option"
  mail_attachments :: "attachment list option"

record sentInfo =
  info_messageId :: string
  info_response :: string

record nodemailer =
  sendMail :: "transportOptions \<Rightarrow> mailOptions \<Rightarrow> js_thrown + sentInfo"
  verify :: "transportOptions \<Rightarrow> js_thrown + unit"

text \<open>The objects the two functions return; an absent property is \<open>None\<close>.\<close>

record sendResult =
  success :: bool
  messageId :: "string option"
  response :: "string option"
  error :: "string option"

record testResult =
  test_success :: bool
  test_message :: "string option"
  test_error :: "string option"

text \<open>\<open>xs.join(sep)\<close>.\<close>

fun join :: "string \<Rightarrow> string list \<Rightarrow> string" where
  "join sep [] = []"
| "join sep [x] = x"
| "join sep (x # y # ys) = x @ sep @ join sep (y # ys)"

definition buildMailOptions :: "user \<Rightarrow> emailData \<Rightarrow> mailOptions" where
  "buildMailOptions u ed =
     \<lparr> mail_from = [CHR 0x22] @ user_name u @ [CHR 0x22] @ '' <'' @ user_email u @ ''>'',
       mail_to = join '', '' (ed_to ed),
       mail_cc = map_option (join '', '') (ed_cc ed),
       mail_bcc = map_option (join '', '') (ed_bcc ed),
       mail_subject = ed_subject ed,
       mail_html = ed_html ed,
       mail_text = ed_text ed,
       mail_attachments = ed_attachments ed \<rparr>"

text \<open>The \<open>try\<close> block of \<open>sendEmail\<close>, then the function with its \<open>catch\<close>.\<close>

definition sendEmailTry ::
  "node_crypto \<Rightarrow> string \<Rightarrow> environment \<Rightarrow> nodemailer \<Rightarrow> user list \<Rightarrow> smtpConfig list
     \<Rightarrow> string \<Rightarrow> emailData \<Rightarrow> js_thrown + sendResult" where
  "sendEmailTry c masterKey env mailer users db uid ed =
     (case createTransporter c masterKey env db uid of
        Inl e \<Rightarrow> Inl e
      | Inr transporter \<Rightarrow>
          (case findFirst (\<lambda>u. user_id u = uid) users of
             None \<Rightarrow> Inl (JsError ''User not found'')
           | Some u \<Rightarrow>
               (case sendMail mailer transporter (buildMailOptions u ed) of
                  Inl e \<Rightarrow> Inl e
                | Inr result \<Rightarrow>
                    Inr \<lparr> success = True, messageId = Some (info_messageId result),
                          response = Some (info_response result), error = None \<rparr>)))"

definition sendEmail ::
  "node_crypto \<Rightarrow> string \<Rightarrow> environment \<Rightarrow> nodemailer \<Rightarrow> user list \<Rightarrow> smtpConfig list
     \<Rightarrow> string \<Rightarrow> emailData \<Rightarrow> js_thrown + sendResult" where
  "sendEmail c masterKey env mailer users db uid ed =
     (case sendEmailTry c masterKey env mailer users db uid ed of
        Inr r \<Rightarrow> Inr r
      | Inl thrown \<Rightarrow>
          Inr \<lparr> success = False, messageId = None, response = None,
                error = Some (case thrown of JsError m \<Rightarrow> m | JsOther \<Rightarrow> ''Unknown error'') \<rparr>)"

record testConfig =
  tc_host :: string
  tc_port :: int
  tc_secure :: bool
  tc_username :: string
  tc_password :: string

definition testSmtpConnection :: "nodemailer \<Rightarrow> testConfig \<Rightarrow> js_thrown + testResult" where
  "testSmtpConnection mailer smtpConfig =
     (case verify mailer
             \<lparr> t_host = tc_host smtpConfig, t_port = Some (tc_port smtpConfig),
               t_secure = tc_secure smtpConfig,
               t_auth = Some \<lparr> auth_user = tc_username smtpConfig,
                               auth_pass = tc_password smtpConfig \<rparr> \<rparr> of
        Inr ok \<Rightarrow> Inr \<lparr> test_success = True, test_message = Some ''SMTP connection successful'',
                        test_error = None \<rparr>
      | Inl thrown \<Rightarrow>
          Inr \<lparr> test_success = False, test_message = None,
                test_error = Some (case thrown of JsError m \<Rightarrow> m | JsOther \<Rightarrow> ''Connection failed'') \<rparr>)"

section \<open>Notions the statements use\<close>





text \<open>Concrete values on which the statements are exercised.\<close>

definition alice :: user where
  "alice = \<lparr> user_id = ''u1'', user_email = ''alice@portal.test'', user_name = ''Alice'',
             user_role = ''USER'' \<rparr>"

definition relayRow :: "string \<Rightarrow> int \<Rightarrow> bool \<Rightarrow> bool \<Rightarrow> smtpConfig" where
  "relayRow i t d a =
     \<lparr> config_id = i, userId = ''u1'', name = ''Relay'', host = ''smtp.relay.test'', port = 587,
       secure = False, username = ''relay@smtp.test'',
       passwordEncrypted = ''000102030405060708090a0b0c0d0e0f:327265746e7568'',
       fromName = ''Relay Sender'', signature = [], isDefault = d, isActive = a,
       createdAt = t, updatedAt = t \<rparr>"



definition emptyEnv :: environment where
  "emptyEnv = \<lparr> DEFAULT_SMTP_HOST = None, DEFAULT_SMTP_PORT = None, DEFAULT_SMTP_SECURE = None,
                DEFAULT_SMTP_USER = None, DEFAULT_SMTP_PASS = None \<rparr>"

definition rejectingMailer :: nodemailer where
  "rejectingMailer =
     \<lparr> sendMail = (\<lambda>t m. Inl (JsError ''Invalid login: 535 Authentication failed'')),
       verify = (\<lambda>t. Inl (JsError ''connect ECONNREFUSED 127.0.0.1:587'')) \<rparr>"

definition helloMail :: emailData where
  "helloMail =
     \<lparr> ed_to = [''x@example.com'', ''y@example.com''], ed_cc = Some [''c@example.com''],
       ed_bcc = None, ed_subject = ''hi'', ed_html = None, ed_text = Some ''body'',
       ed_attachments = None \<rparr>"

definition relayTest :: testConfig where
  "relayTest = \<lparr> tc_host = ''smtp.relay.test'', tc_port = 587, tc_secure = False,
                 tc_username = ''relay@smtp.test'', tc_password = ''hunter2'' \<rparr>"

text \<open>
  A relay that accepts every message and reports the sender and recipient headers it was
  given as \<open>messageId\<close> and \<open>response\<close>.
\<close>

definition echoMailer :: nodemailer where
  "echoMailer =
     \<lparr> sendMail = (\<lambda>t m. Inr \<lparr> info_messageId = mail_from m, info_response = mail_to m \<rparr>),
       verify = (\<lambda>t. Inr ()) \<rparr>"



section \<open>Properties\<close>

subsection \<open>Credential vault\<close>





lemma split_no_sep: "sep \<notin> set s \<Longrightarrow> split sep s = [s]"
  by (induction s) auto

lemma split_append: "sep \<notin> set s \<Longrightarrow> split sep (s @ sep # t) = s # split sep t"
  by (induction s) auto






subsection \<open>Facts about the persistence layer\<close>








subsection \<open>Dispatch never throws\<close>

text \<open>
  Claim C2. \<open>sendEmail\<close> and \<open>testSmtpConnection\<close> never throw: whatever the relay, the
  stored configurations, the users and the cipher do, each returns an object. The object
  of \<open>sendEmail\<close> has \<open>success: true\<close> exactly when a transporter was built, the user
  was found and \<open>sendMail\<close> gave a result, that of \<open>testSmtpConnection\<close> exactly when
  \<open>verify\<close> did; every other outcome, so every failure of the relay, is the object
  \<open>{success: false, error}\<close>.
\<close>

theorem dispatch_never_throws:
  "(\<exists>r. sendEmail c masterKey env mailer users db uid ed = Inr r
        \<and> (success r \<longleftrightarrow>
             (\<exists>t u info. createTransporter c masterKey env db uid = Inr t
                \<and> findFirst (\<lambda>u. user_id u = uid) users = Some u
                \<and> sendMail mailer t (buildMailOptions u ed) = Inr info))
        \<and> (\<not> success r \<longrightarrow> error r \<noteq> None))
   \<and> (\<exists>r. testSmtpConnection mailer cfg = Inr r
        \<and> (test_success r \<longleftrightarrow>
             (\<exists>ok. verify mailer
                      \<lparr> t_host = tc_host cfg, t_port = Some (tc_port cfg), t_secure = tc_secure cfg,
                        t_auth = Some \<lparr> auth_user = tc_username cfg, auth_pass = tc_password cfg \<rparr> \<rparr>
                    = Inr ok))
        \<and> (\<not> test_success r \<longrightarrow> test_error r \<noteq> None))"
proof
  show "\<exists>r. sendEmail c masterKey env mailer users db uid ed = Inr r
        \<and> (success r \<longleftrightarrow>
             (\<exists>t u info. createTransporter c masterKey env db uid = Inr t
                \<and> findFirst (\<lambda>u. user_id u = uid) users = Some u
                \<and> sendMail mailer t (buildMailOptions u ed) = Inr info))
        \<and> (\<not> success r \<longrightarrow> error r \<noteq> None)"
    by (auto simp: sendEmail_def sendEmailTry_def split: sum.splits option.splits)
next
  show "\<exists>r. testSmtpConnection mailer cfg = Inr r
        \<and> (test_success r \<longleftrightarrow>
             (\<exists>ok. verify mailer
                      \<lparr> t_host = tc_host cfg, t_port = Some (tc_port cfg), t_secure = tc_secure cfg,
                        t_auth = Some \<lparr> auth_user = tc_username cfg, auth_pass = tc_password cfg \<rparr> \<rparr>
                    = Inr ok))
        \<and> (\<not> test_success r \<longrightarrow> test_error r \<noteq> None)"
    by (auto simp: testSmtpConnection_def split: sum.splits)
qed

theorem dispatch_never_throws_witness:
  "\<exists>r. sendEmail demoCrypto ''master'' emptyEnv rejectingMailer [alice] [] ''u1'' helloMail = Inr r
       \<and> \<not> success r \<and> error r = Some ''Invalid login: 535 Authentication failed''
       \<and> (\<exists>q. testSmtpConnection rejectingMailer relayTest = Inr q
              \<and> \<not> test_success q \<and> test_error q = Some ''connect ECONNREFUSED 127.0.0.1:587'')"
proof -
  have s: "sendEmail demoCrypto ''master'' emptyEnv rejectingMailer [alice] [] ''u1'' helloMail
             = Inr \<lparr> success = False, messageId = None, response = None,
                     error = Some ''Invalid login: 535 Authentication failed'' \<rparr>"
    by (simp add: sendEmail_def sendEmailTry_def createTransporter_def getSmtpConfig_def
        findFirst_def rejectingMailer_def alice_def)
  have t: "testSmtpConnection rejectingMailer relayTest
             = Inr \<lparr> test_success = False, test_message = None,
                     test_error = Some ''connect ECONNREFUSED 127.0.0.1:587'' \<rparr>"
    by (simp add: testSmtpConnection_def rejectingMailer_def)
  from dispatch_never_throws [of demoCrypto "''master''" emptyEnv rejectingMailer "[alice]" "[]"
      "''u1''" helloMail relayTest] s t
  show ?thesis by auto
qed

subsection \<open>Deactivating the only active configuration\<close>

text \<open>
  Claim C6. When the target of \<open>DELETE /api/smtp/configs/:id\<close> is the caller's only active
  configuration, the handler answers 400 ``Cannot delete the only SMTP configuration''
  and writes nothing: the table is the one it met, the configuration is in it and active.
\<close>

theorem deactivate_only_active_rejected:
  assumes "activeConfigs (user_id me) db = [t]" and "config_id t = i"
  shows "deleteConfig me now i db = (Status400 ''Cannot delete the only SMTP configuration'', db)
         \<and> t \<in> set db \<and> isActive t"
proof -
  from assms(1) have tin: "t \<in> set (filter (\<lambda>r. userId r = user_id me \<and> isActive r) db)"
    by (simp add: activeConfigs_def)
  then have t: "t \<in> set db" "userId t = user_id me" "isActive t" by auto
  with assms(2) have "t \<in> set (filter (\<lambda>r. config_id r = i \<and> userId r = user_id me) db)" by simp
  then obtain e where e: "findFirst (\<lambda>r. config_id r = i \<and> userId r = user_id me) db = Some e"
    by (cases "filter (\<lambda>r. config_id r = i \<and> userId r = user_id me) db") (auto simp: findFirst_def)
  have cnt: "count (\<lambda>r. userId r = user_id me \<and> isActive r) db = 1"
    using assms(1) by (simp add: count_def activeConfigs_def)
  have "deleteWrites me now i db = (Status400 ''Cannot delete the only SMTP configuration'', [])"
    by (simp add: deleteWrites_def e cnt)
  then show ?thesis using t by (simp add: deleteConfig_def)
qed

theorem deactivate_only_active_rejected_witness:
  "activeConfigs (user_id alice) [relayRow ''a'' 1 True True, relayRow ''b'' 2 False False]
     = [relayRow ''a'' 1 True True]
   \<and> config_id (relayRow ''a'' 1 True True) = ''a''
   \<and> deleteConfig alice 5 ''a'' [relayRow ''a'' 1 True True, relayRow ''b'' 2 False False]
     = (Status400 ''Cannot delete the only SMTP configuration'',
        [relayRow ''a'' 1 True True, relayRow ''b'' 2 False False])"
proof -
  have a: "activeConfigs (user_id alice) [relayRow ''a'' 1 True True, relayRow ''b'' 2 False False]
     = [relayRow ''a'' 1 True True]"
    by (simp add: activeConfigs_def alice_def relayRow_def)
  have b: "config_id (relayRow ''a'' 1 True True) = ''a''"
    by (simp add: relayRow_def)
  from deactivate_only_active_rejected [OF a b, of 5] a b show ?thesis by simp
qed

subsection \<open>Reading configurations\<close>





subsection \<open>The message handed to the relay\<close>

lemma split_join_comma:
  "\<forall>z \<in> set (x # ys). CHR '','' \<notin> set z \<Longrightarrow>
     split CHR '','' (join '', '' (x # ys)) = x # map ((#) CHR '' '') ys"
proof (induction ys arbitrary: x)
  case Nil
  then show ?case by (simp add: split_no_sep)
next
  case (Cons y ys)
  then have x: "CHR '','' \<notin> set x" and rest: "\<forall>z \<in> set (y # ys). CHR '','' \<notin> set z"
    by simp_all
  have "join '', '' (x # y # ys) = x @ CHR '','' # (CHR '' '' # join '', '' (y # ys))"
    by simp
  then have "split CHR '','' (join '', '' (x # y # ys))
               = x # split CHR '','' (CHR '' '' # join '', '' (y # ys))"
    using split_append [OF x] by simp
  also have "split CHR '','' (CHR '' '' # join '', '' (y # ys))
               = (CHR '' '' # y) # map ((#) CHR '' '') ys"
    using Cons.IH [OF rest] by simp
  finally show ?case by simp
qed

text \<open>
  Claim C8, as stated, fails on the sender header: the relay configuration plays no part
  in it. For the user Alice and a stored configuration with username
  \<open>relay@smtp.test\<close> and sender name \<open>Relay Sender\<close>, the relay receives the header
  \<open>"Alice" <alice@portal.test>\<close>, and it receives the same message when the username and
  the sender name of the configuration are changed.
\<close>

theorem sender_header_counterexample:
  "sendEmail demoCrypto ''master'' emptyEnv echoMailer [alice] [relayRow ''a'' 1 False True] ''u1'' helloMail
     = Inr \<lparr> success = True,
             messageId = Some ([CHR 0x22] @ ''Alice'' @ [CHR 0x22] @ '' <alice@portal.test>''),
             response = Some ''x@example.com, y@example.com'', error = None \<rparr>
   \<and> username (relayRow ''a'' 1 False True) = ''relay@smtp.test''
   \<and> fromName (relayRow ''a'' 1 False True) = ''Relay Sender''
   \<and> sendEmail demoCrypto ''master'' emptyEnv echoMailer [alice]
        [(relayRow ''a'' 1 False True)\<lparr>username := ''other@smtp.test'', fromName := ''Other''\<rparr>]
        ''u1'' helloMail
     = sendEmail demoCrypto ''master'' emptyEnv echoMailer [alice] [relayRow ''a'' 1 False True]
        ''u1'' helloMail"
  by (simp add: sendEmail_def sendEmailTry_def createTransporter_def getSmtpConfig_def
      transportOf_def findFirst_def echoMailer_def alice_def relayRow_def helloMail_def
      buildMailOptions_def)

text \<open>
  Claim C8, amended. Whenever \<open>sendEmail\<close> reaches the relay, the message it hands over
  has the sender header \<open>"name" <email>\<close> made of the name and the e-mail address of the
  owner's user record, and the \<open>to\<close>, \<open>cc\<close> and \<open>bcc\<close> lists joined with a comma and a
  space (\<open>cc\<close> and \<open>bcc\<close> when present); the result of \<open>sendEmail\<close> is the outcome of
  \<open>sendMail\<close> on that message.
\<close>

theorem mail_options_from_user_record:
  assumes "createTransporter c masterKey env db uid = Inr t"
      and "findFirst (\<lambda>u. user_id u = uid) users = Some u"
  shows "\<exists>m. sendEmail c masterKey env mailer users db uid ed =
              (case sendMail mailer t m of
                 Inr info \<Rightarrow> Inr \<lparr> success = True, messageId = Some (info_messageId info),
                                  response = Some (info_response info), error = None \<rparr>
               | Inl thrown \<Rightarrow>
                   Inr \<lparr> success = False, messageId = None, response = None,
                         error = Some (case thrown of JsError msg \<Rightarrow> msg | JsOther \<Rightarrow> ''Unknown error'') \<rparr>)
          \<and> mail_from m = [CHR 0x22] @ user_name u @ [CHR 0x22] @ '' <'' @ user_email u @ ''>''
          \<and> mail_to m = join '', '' (ed_to ed)
          \<and> mail_cc m = map_option (join '', '') (ed_cc ed)
          \<and> mail_bcc m = map_option (join '', '') (ed_bcc ed)"
proof -
  let ?m = "buildMailOptions u ed"
  have "sendEmail c masterKey env mailer users db uid ed =
              (case sendMail mailer t ?m of
                 Inr info \<Rightarrow> Inr \<lparr> success = True, messageId = Some (info_messageId info),
                                  response = Some (info_response info), error = None \<rparr>
               | Inl thrown \<Rightarrow>
                   Inr \<lparr> success = False, messageId = None, response = None,
                         error = Some (case thrown of JsError msg \<Rightarrow> msg | JsOther \<Rightarrow> ''Unknown error'') \<rparr>)"
    using assms by (simp add: sendEmail_def sendEmailTry_def split: sum.splits)
  moreover have "mail_from ?m = [CHR 0x22] @ user_name u @ [CHR 0x22] @ '' <'' @ user_email u @ ''>''"
    "mail_to ?m = join '', '' (ed_to ed)"
    "mail_cc ?m = map_option (join '', '') (ed_cc ed)"
    "mail_bcc ?m = map_option (join '', '') (ed_bcc ed)"
    by (simp_all add: buildMailOptions_def)
  ultimately show ?thesis by blast
qed

theorem mail_options_from_user_record_witness:
  "createTransporter demoCrypto ''master'' emptyEnv [relayRow ''a'' 1 False True] ''u1''
     = Inr \<lparr> t_host = ''smtp.relay.test'', t_port = Some 587, t_secure = False, t_auth = None \<rparr>
   \<and> findFirst (\<lambda>u. user_id u = ''u1'') [alice] = Some alice
   \<and> (\<exists>m :: mailOptions. sendEmail demoCrypto ''master'' emptyEnv rejectingMailer [alice]
              [relayRow ''a'' 1 False True] ''u1'' helloMail
            = Inr \<lparr> success = False, messageId = None, response = None,
                    error = Some ''Invalid login: 535 Authentication failed'' \<rparr>
          \<and> mail_from m = [CHR 0x22] @ ''Alice'' @ [CHR 0x22] @ '' <alice@portal.test>''
          \<and> mail_to m = ''x@example.com, y@example.com''
          \<and> mail_cc m = Some ''c@example.com''
          \<and> mail_bcc m = None)"
proof -
  have t: "createTransporter demoCrypto ''master'' emptyEnv [relayRow ''a'' 1 False True] ''u1''
     = Inr \<lparr> t_host = ''smtp.relay.test'', t_port = Some 587, t_secure = False, t_auth = None \<rparr>"
    by (simp add: createTransporter_def getSmtpConfig_def transportOf_def findFirst_def relayRow_def)
  have u: "findFirst (\<lambda>u. user_id u = ''u1'') [alice] = Some alice"
    by (simp add: findFirst_def alice_def)
  from mail_options_from_user_record [OF t u, of rejectingMailer helloMail]
  obtain m where m:
    "sendEmail demoCrypto ''master'' emptyEnv rejectingMailer [alice]
              [relayRow ''a'' 1 False True] ''u1'' helloMail
       = (case sendMail rejectingMailer
                 \<lparr> t_host = ''smtp.relay.test'', t_port = Some 587, t_secure = False, t_auth = None \<rparr> m of
            Inr info \<Rightarrow> Inr \<lparr> success = True, messageId = Some (info_messageId info),
                             response = Some (info_response info), error = None \<rparr>
          | Inl thrown \<Rightarrow>
              Inr \<lparr> success = False, messageId = None, response = None,
                    error = Some (case thrown of JsError msg \<Rightarrow> msg | JsOther \<Rightarrow> ''Unknown error'') \<rparr>)"
    "mail_from m = [CHR 0x22] @ user_name alice @ [CHR 0x22] @ '' <'' @ user_email alice @ ''>''"
    "mail_to m = join '', '' (ed_to helloMail)"
    "mail_cc m = map_option (join '', '') (ed_cc helloMail)"
    "mail_bcc m = map_option (join '', '') (ed_bcc helloMail)"
    by blast
  have r: "sendEmail demoCrypto ''master'' emptyEnv rejectingMailer [alice]
              [relayRow ''a'' 1 False True] ''u1'' helloMail
            = Inr \<lparr> success = False, messageId = None, response = None,
                    error = Some ''Invalid login: 535 Authentication failed'' \<rparr>"
    using m(1) by (simp add: rejectingMailer_def)
  have f: "mail_from m = [CHR 0x22] @ ''Alice'' @ [CHR 0x22] @ '' <alice@portal.test>''"
    "mail_to m = ''x@example.com, y@example.com''" "mail_cc m = Some ''c@example.com''"
    "mail_bcc m = None"
    using m(2-5) by (simp_all add: alice_def helloMail_def)
  show ?thesis
    by (intro conjI exI [of _ m]) (rule t u r f)+
qed

subsection \<open>Which configuration a send uses\<close>




subsection \<open>Malformed envelopes\<close>




subsection \<open>Deactivating the default configuration\<close>

text \<open>
  Claim C5. Alice has three active configurations, \<open>a\<close> (the default, created first),
  \<open>b\<close> and \<open>c\<close>, and deletes \<open>a\<close>. The handler promotes \<open>b\<close>, the oldest of the others,
  and only \<open>b\<close>; but it does so in a write of its own, committed before the write that
  marks \<open>a\<close> inactive: the table after the first write has two active defaults, \<open>a\<close> and
  \<open>b\<close>. The set-default route, on the same table, goes to its result in one step.
\<close>

theorem deactivate_default_two_writes:
  "deleteWrites alice 9 ''a''
      [relayRow ''a'' 1 True True, relayRow ''b'' 2 False True, relayRow ''c'' 3 False True]
    = (Status200 ''SMTP configuration deleted successfully'',
       [[relayRow ''a'' 1 True True, (relayRow ''b'' 2 True True)\<lparr>updatedAt := 9\<rparr>,
         relayRow ''c'' 3 False True],
        [(relayRow ''a'' 1 True False)\<lparr>updatedAt := 9\<rparr>,
         (relayRow ''b'' 2 True True)\<lparr>updatedAt := 9\<rparr>, relayRow ''c'' 3 False True]])
   \<and> map config_id (activeDefaults ''u1''
        [relayRow ''a'' 1 True True, (relayRow ''b'' 2 True True)\<lparr>updatedAt := 9\<rparr>,
         relayRow ''c'' 3 False True]) = [''a'', ''b'']
   \<and> map config_id (activeDefaults ''u1''
        [(relayRow ''a'' 1 True False)\<lparr>updatedAt := 9\<rparr>,
         (relayRow ''b'' 2 True True)\<lparr>updatedAt := 9\<rparr>, relayRow ''c'' 3 False True]) = [''b'']
   \<and> snd (setDefault alice 9 ''b''
        [relayRow ''a'' 1 True True, relayRow ''b'' 2 False True, relayRow ''c'' 3 False True])
      = [(relayRow ''a'' 1 False True)\<lparr>updatedAt := 9\<rparr>,
         (relayRow ''b'' 2 True True)\<lparr>updatedAt := 9\<rparr>, relayRow ''c'' 3 False True]"
  by (simp add: deleteWrites_def setDefault_def findFirst_def count_def update_def updateMany_def
      activeDefaults_def alice_def relayRow_def)

subsection \<open>At most one default among the active configurations\<close>






























end
